theory Spec2Isabelle
  imports Main "HOL-Library.Word" "HOL-Library.AList" "HOL-Library.Multiset"
begin

unbundle bit_operations_syntax

section \<open>Bytes, errors and the connection\<close>

type_synonym byte = "8 word"
type_synonym uint16 = "16 word"
type_synonym uint32 = "32 word"

text \<open>
  The Go \<open>error\<close> values that the two files create or pass on. \<open>ErrClosedConn\<close>,
  \<open>ErrTimeout\<close>, \<open>ErrEOF\<close> and \<open>ErrUnexpectedEOF\<close> are what \<open>net.Conn\<close> and
  \<open>io.ReadFull\<close> hand back; \<open>ErrSerialize\<close> and \<open>ErrDeserialize\<close> stand for whatever
  \<open>common.Serialize\<close> and \<open>common.Deserialize\<close> return; the others are the
  \<open>errors.New\<close> and \<open>fmt.Errorf\<close> values of peer.go and server.go.
\<close>

datatype error =
    ErrClosedConn
  | ErrTimeout
  | ErrEOF
  | ErrUnexpectedEOF
  | ErrSerialize
  | ErrDeserialize
  | ErrNotFoundNodeID
  | ErrNotValidProtoCode
  | ErrCtlMsgDisc
  | ErrDiscRecved
  | ErrNotFoundProtoCode

text \<open>
  One end of a TCP connection (\<open>net.Conn\<close>). \<open>inb\<close> holds the bytes that arrive
  before the stream ends or the read deadline passes, \<open>outb\<close> the bytes written so
  far, \<open>wlimit\<close> how many more bytes the connection takes before a write fails
  (\<open>None\<close>: writes never fail), \<open>closed\<close> whether \<open>Close\<close> was called on this end.
\<close>

record conn =
  inb :: "byte list"
  outb :: "byte list"
  wlimit :: "nat option"
  closed :: bool

definition conn_Close :: "conn \<Rightarrow> conn" where
  "conn_Close c = c\<lparr>closed := True\<rparr>"

text \<open>\<open>conn.Write(b)\<close>: the new connection and the error, \<open>None\<close> for \<open>nil\<close>.\<close>

definition conn_Write :: "conn \<Rightarrow> byte list \<Rightarrow> conn \<times> error option" where
  "conn_Write c b =
     (if closed c then (c, Some ErrClosedConn)
      else case wlimit c of
        None \<Rightarrow> (c\<lparr>outb := outb c @ b\<rparr>, None)
      | Some n \<Rightarrow>
          if length b \<le> n
          then (c\<lparr>outb := outb c @ b, wlimit := Some (n - length b)\<rparr>, None)
          else (c\<lparr>outb := outb c @ take n b, wlimit := Some 0\<rparr>, Some ErrTimeout))"

text \<open>
  \<open>io.ReadFull(conn, buf)\<close> with \<open>len(buf) = n\<close>. With \<open>n = 0\<close> it returns at once
  without touching the connection; otherwise it reads until \<open>n\<close> bytes are there, and
  fails with \<open>EOF\<close> when none came and \<open>ErrUnexpectedEOF\<close> when too few did.
\<close>

definition ReadFull :: "conn \<Rightarrow> nat \<Rightarrow> conn \<times> (error + byte list)" where
  "ReadFull c n =
     (if n = 0 then (c, Inr [])
      else if closed c then (c, Inl ErrClosedConn)
      else if n \<le> length (inb c) then (c\<lparr>inb := drop n (inb c)\<rparr>, Inr (take n (inb c)))
      else if inb c = [] then (c, Inl ErrEOF)
      else (c\<lparr>inb := []\<rparr>, Inl ErrUnexpectedEOF))"

section \<open>Framed transport (peer.go)\<close>

text \<open>\<open>binary.BigEndian\<close>: \<open>PutUint32\<close>, \<open>PutUint16\<close>, \<open>Uint32\<close>, \<open>Uint16\<close>.\<close>

definition PutUint32 :: "uint32 \<Rightarrow> byte list" where
  "PutUint32 v = [ucast (drop_bit 24 v), ucast (drop_bit 16 v), ucast (drop_bit 8 v), ucast v]"

definition PutUint16 :: "uint16 \<Rightarrow> byte list" where
  "PutUint16 v = [ucast (drop_bit 8 v), ucast v]"

fun Uint32 :: "byte list \<Rightarrow> uint32" where
  "Uint32 (b0 # b1 # b2 # b3 # _) =
     ucast b3 OR push_bit 8 (ucast b2) OR push_bit 16 (ucast b1) OR push_bit 24 (ucast b0)"
| "Uint32 _ = 0"

fun Uint16 :: "byte list \<Rightarrow> uint16" where
  "Uint16 (b0 # b1 # _) = ucast b1 OR push_bit 8 (ucast b0)"
| "Uint16 _ = 0"

text \<open>
  \<open>Message\<close> and \<open>msg\<close>. The fields \<open>ReceivedAt\<close> and \<open>CurPeer\<close>, which
  \<open>recvRawMsg\<close> fills with the clock and the receiving peer, are not part of the
  frame and are left out. \<open>size\<close> is written \<open>sizeF\<close>.
\<close>

record Message =
  sizeF :: uint32
  msgCode :: uint16
  payload :: "byte list"

record msg = Message +
  protoCode :: uint16

text \<open>The 8-byte header that \<open>sendRawMsg\<close> builds in \<open>b\<close>.\<close>

definition header :: "msg \<Rightarrow> byte list" where
  "header m = PutUint32 (sizeF m) @ PutUint16 (protoCode m) @ PutUint16 (msgCode m)"

definition sendRawMsg :: "conn \<Rightarrow> msg \<Rightarrow> conn \<times> error option" where
  "sendRawMsg c msgSend =
     (case conn_Write c (header msgSend) of
        (c1, Some err) \<Rightarrow> (c1, Some err)
      | (c1, None) \<Rightarrow>
          (case conn_Write c1 (payload msgSend) of
             (c2, Some err) \<Rightarrow> (c2, Some err)
           | (c2, None) \<Rightarrow> (c2, None)))"

definition recvRawMsg :: "conn \<Rightarrow> conn \<times> (error + msg)" where
  "recvRawMsg c =
     (case ReadFull c 8 of
        (c1, Inl err1) \<Rightarrow> (c1, Inl err1)
      | (c1, Inr headbuf) \<Rightarrow>
          (let sz = Uint32 (take 4 headbuf);
               pc = Uint16 (take 2 (drop 4 headbuf));
               mc = Uint16 (take 2 (drop 6 headbuf))
           in case ReadFull c1 (unat sz) of
                (c2, Inl err) \<Rightarrow> (c2, Inl err)
              | (c2, Inr pl) \<Rightarrow>
                  (c2, Inr \<lparr>sizeF = sz, msgCode = mc, payload = pl, protoCode = pc\<rparr>)))"

section \<open>Peer (peer.go)\<close>

definition discAlreadyConnected :: nat where
  "discAlreadyConnected = 10"

definition discServerQuit :: nat where
  "discServerQuit = 11"

text \<open>
  \<open>discovery.Node\<close>, with the fields the two files read. A node ID
  (\<open>common.Address\<close>) is a byte array, here a byte list.
\<close>

record Node =
  ID :: "byte list"
  IP :: string
  UDPPort :: nat

text \<open>
  The \<open>Peer\<close> struct; \<open>'p\<close> is \<open>*Protocol\<close>. \<open>node = None\<close> is the nil
  pointer. The two channels are kept by what matters to a \<open>select\<close>: \<open>closedCh\<close>
  and \<open>discCh\<close> say whether \<open>close(p.closed)\<close> and \<open>close(p.disc)\<close> have run, and
  \<open>waiting\<close> whether \<open>run\<close> is blocked in the \<open>select\<close> of its loop, where it
  receives from \<open>p.disc\<close>. The fields \<open>created\<close>, \<open>wMutex\<close>, \<open>wg\<close> and \<open>log\<close>
  are left out.
\<close>

record 'p Peer =
  conn :: conn
  node :: "Node option"
  err :: "error option"
  closedCh :: bool
  discCh :: bool
  waiting :: bool
  protoMap :: "uint16 \<rightharpoonup> 'p"
  capMap :: "string \<rightharpoonup> uint16"

text \<open>
  \<open>sendCtlMsg\<close> builds the control frame, calls \<open>sendRawMsg\<close>, drops its result and
  returns \<open>nil\<close>. \<open>ctlProtoCode\<close> is declared outside the two files and is a parameter.
\<close>

definition sendCtlMsg :: "uint16 \<Rightarrow> conn \<Rightarrow> uint16 \<Rightarrow> conn \<times> error option" where
  "sendCtlMsg ctlProtoCode c code =
     (let hsMsg = \<lparr>sizeF = 0, msgCode = code, payload = [], protoCode = ctlProtoCode\<rparr>
      in (fst (sendRawMsg c hsMsg), None))"

text \<open>
  What the \<open>select\<close> in the loop of \<open>Peer.run\<close> can receive: a value from
  \<open>writeErr\<close> (\<open>None\<close> is a nil error), from \<open>readErr\<close>, or from \<open>p.disc\<close>.
\<close>

datatype run_event =
    WriteErr "error option"
  | ReadErr error
  | DiscRecv nat

text \<open>One pass through the \<open>select\<close>; \<open>waiting\<close> turns false at \<open>break loop\<close>.\<close>

fun run_select :: "'p Peer \<Rightarrow> run_event \<Rightarrow> 'p Peer" where
  "run_select p (WriteErr None) = p"
| "run_select p (WriteErr (Some e)) = p\<lparr>err := Some e, waiting := False\<rparr>"
| "run_select p (ReadErr e) = p\<lparr>err := Some e, waiting := False\<rparr>"
| "run_select p (DiscRecv r) = p\<lparr>err := Some ErrDiscRecved, waiting := False\<rparr>"

text \<open>After the loop: \<open>close(p.closed)\<close>, \<open>p.conn.Close()\<close>, \<open>close(p.disc)\<close>.\<close>

definition close_closed :: "'p Peer \<Rightarrow> 'p Peer" where
  "close_closed p = p\<lparr>closedCh := True\<rparr>"

definition close_disc :: "'p Peer \<Rightarrow> 'p Peer" where
  "close_disc p = p\<lparr>discCh := True\<rparr>"

definition run_teardown :: "'p Peer \<Rightarrow> 'p Peer" where
  "run_teardown p = close_disc ((close_closed p)\<lparr>conn := conn_Close (conn p)\<rparr>)"

text \<open>
  What happens to a running peer. \<open>PingTimer\<close>: the timer of \<open>pingLoop\<close> fires and the
  loop calls \<open>sendCtlMsg\<close>. \<open>ReaderFails e\<close>: \<open>readLoop\<close> gets \<open>e\<close> from
  \<open>recvRawMsg\<close> or \<open>handle\<close> and sends it on \<open>readErr\<close>. \<open>DiscPosted r\<close>: a
  \<open>Disconnect(r)\<close> hands \<open>r\<close> over on \<open>p.disc\<close>. The channel \<open>writeErr\<close> is a
  local variable of \<open>run\<close> that is passed to nobody, so no event sends on it.
  Once \<open>run\<close> has left its loop the peer takes no more events.
\<close>

datatype peer_event =
    PingTimer
  | ReaderFails error
  | DiscPosted nat

fun peer_step :: "uint16 \<Rightarrow> uint16 \<Rightarrow> 'p Peer \<Rightarrow> peer_event \<Rightarrow> 'p Peer" where
  "peer_step ctlProtoCode ctlMsgPingCode p ev =
     (if \<not> waiting p then p
      else case ev of
        PingTimer \<Rightarrow> p\<lparr>conn := fst (sendCtlMsg ctlProtoCode (conn p) ctlMsgPingCode)\<rparr>
      | ReaderFails e \<Rightarrow> run_teardown (run_select p (ReadErr e))
      | DiscPosted r \<Rightarrow> run_teardown (run_select p (DiscRecv r)))"

text \<open>
  \<open>Disconnect\<close> is one \<open>select\<close> with two cases and no default. A \<open>select\<close>
  blocks while no case can proceed and otherwise runs one of the cases that can, chosen
  at random. The send on the unbuffered \<open>p.disc\<close> can proceed when \<open>run\<close> waits to
  receive, and, on a closed channel, proceeds by panicking; the receive from
  \<open>p.closed\<close> can proceed once that channel is closed. \<open>Disconnect p\<close> lists what
  the call can do.
\<close>

datatype outcome = Posted | Dropped | Panics | Blocks

definition select_ready :: "'p Peer \<Rightarrow> outcome list" where
  "select_ready p =
     (if discCh p then [Panics] else if waiting p then [Posted] else [])
     @ (if closedCh p then [Dropped] else [])"

definition Disconnect :: "'p Peer \<Rightarrow> outcome list" where
  "Disconnect p = (if select_ready p = [] then [Blocks] else select_ready p)"

section \<open>Handshake (server.go, setupConn)\<close>

definition inboundConn :: int where
  "inboundConn = 1"

definition outboundConn :: int where
  "outboundConn = 2"

text \<open>
  Modelled from the spec: the type \<open>Cap\<close> is declared outside the two files; the data
  model gives a capability as a pair of a name and a version.
\<close>

record Cap =
  Name :: string
  Version :: nat

text \<open>The handshake payload \<open>protoHandShake\<close>, with the three fields \<open>setupConn\<close> uses.\<close>

record protoHandShake =
  caps :: "Cap list"
  nodeID :: "byte list"
  nounce :: uint32

text \<open>
  What \<open>setupConn\<close> uses and the two files do not declare: \<open>common.Serialize\<close>,
  \<open>common.Deserialize\<close> (its error result), \<open>common.HexToAddress\<close>, the method
  \<open>cap()\<close> of a protocol and \<open>String()\<close> of a capability, the constants
  \<open>baseProtoCode\<close>, \<open>ctlProtoCode\<close> and \<open>ctlMsgProtoHandshake\<close>, and the length of
  the array \<open>protoHandShake.nodeID\<close>.
\<close>

record 'p extern =
  Serialize :: "protoHandShake \<Rightarrow> error + byte list"
  Deserialize :: "byte list \<Rightarrow> error option"
  HexToAddress :: "string \<Rightarrow> byte list"
  cap :: "'p \<Rightarrow> Cap"
  String :: "Cap \<Rightarrow> string"
  baseProtoCode :: uint16
  ctlProtoCode :: uint16
  ctlMsgProtoHandshake :: uint16
  nodeIDLen :: nat

text \<open>
  The fields of \<open>Server\<close> that \<open>setupConn\<close> reads; \<open>kadDB\<close> is what
  \<open>srv.kadDB.GetCopy()\<close> returns, in the order the \<open>range\<close> loop visits it.
\<close>

record 'p Server =
  Protocols :: "'p list"
  MyNodeID :: string
  kadDB :: "Node list"

text \<open>The zero value of \<open>protoHandShake\<close> (\<open>var recvMsg protoHandShake\<close>).\<close>

definition zero_protoHandShake :: "nat \<Rightarrow> protoHandShake" where
  "zero_protoHandShake n = \<lparr>caps = [], nodeID = replicate n 0, nounce = 0\<rparr>"

text \<open>The builtin \<open>copy(dst, src)\<close>: the shorter length decides.\<close>

definition copy_bytes :: "byte list \<Rightarrow> byte list \<Rightarrow> byte list" where
  "copy_bytes dst src = take (length dst) src @ drop (length src) dst"

text \<open>
  The loop over \<open>srv.Protocols\<close> that fills \<open>peer.protoMap\<close> and \<open>peer.capMap\<close>;
  \<open>protoCode++\<close> is on \<open>uint16\<close> and wraps.
\<close>

fun assignCodes ::
  "'p extern \<Rightarrow> 'p list \<Rightarrow> uint16 \<Rightarrow> (uint16 \<rightharpoonup> 'p) \<times> (string \<rightharpoonup> uint16)
     \<Rightarrow> (uint16 \<rightharpoonup> 'p) \<times> (string \<rightharpoonup> uint16)" where
  "assignCodes X [] code (pm, cm) = (pm, cm)"
| "assignCodes X (proto # ps) code (pm, cm) =
     assignCodes X ps (code + 1) (pm(code \<mapsto> proto), cm(String X (cap X proto) \<mapsto> code))"

text \<open>
  \<open>setupConn\<close>. The arguments are the parameters above, the server, the nonce drawn
  from the random source, and \<open>fd\<close>, \<open>flags\<close>, \<open>dialDest\<close>. The result is the
  connection as the call leaves it, with the error returned, or with the peer that the
  goroutine started at the end sends on \<open>srv.addpeer\<close>.

  \<open>common.Deserialize(recvWrapMsg.payload, recvMsg)\<close> receives \<open>recvMsg\<close> by value,
  so the call cannot assign the caller's variable: after it \<open>recvMsg\<close> still is the
  zero value, and only the error of the call is used. The result of the call
  \<open>peer.sendRawMsg(wrapMsg)\<close> is dropped. The header fields of the received frame
  are not read.
\<close>

definition setupConn ::
  "'p extern \<Rightarrow> 'p Server \<Rightarrow> uint32 \<Rightarrow> conn \<Rightarrow> int \<Rightarrow> Node option
     \<Rightarrow> conn \<times> (error + 'p Peer)" where
  "setupConn X srv myNounce fd flags dialDest =
     (let peer = \<lparr>conn = fd, node = dialDest, err = None, closedCh = False, discCh = False,
                  waiting = False, protoMap = Map.empty, capMap = Map.empty\<rparr>;
          handshakeMsg =
            \<lparr>caps = map (cap X) (Protocols srv),
             nodeID = copy_bytes (nodeID (zero_protoHandShake (nodeIDLen X)))
                        (HexToAddress X (MyNodeID srv)),
             nounce = myNounce\<rparr>
      in case Serialize X handshakeMsg of
           Inl e \<Rightarrow> (conn_Close fd, Inl e)
         | Inr buffer \<Rightarrow>
             (let wrapMsg = \<lparr>sizeF = of_nat (length buffer), msgCode = ctlMsgProtoHandshake X,
                             payload = buffer, protoCode = ctlProtoCode X\<rparr>;
                  fd1 = fst (sendRawMsg fd wrapMsg)
              in case recvRawMsg fd1 of
                   (fd2, Inl e) \<Rightarrow> (conn_Close fd2, Inl e)
                 | (fd2, Inr recvWrapMsg) \<Rightarrow>
                     (let recvMsg = zero_protoHandShake (nodeIDLen X)
                      in case Deserialize X (payload recvWrapMsg) of
                           Some e \<Rightarrow> (conn_Close fd2, Inl e)
                         | None \<Rightarrow>
                             (let peerNodeID = nodeID recvMsg;
                                  (pm, cm) = assignCodes X (Protocols srv) (baseProtoCode X)
                                               (protoMap peer, capMap peer);
                                  peerNode =
                                    (if flags = inboundConn
                                     then find (\<lambda>n. ID n = peerNodeID) (kadDB srv)
                                     else None)
                              in case peerNode of
                                   None \<Rightarrow> (fd2, Inl ErrNotFoundNodeID)
                                 | Some n \<Rightarrow>
                                     (fd2, Inr (peer\<lparr>conn := fd2, node := Some n,
                                                      protoMap := pm, capMap := cm\<rparr>))))))"

section \<open>Server loop (server.go, run)\<close>

text \<open>
  A \<open>*Peer\<close> as \<open>Server.run\<close> sees it: the address of the struct, which is what
  \<open>curPeer == pd\<close> compares, and \<open>node.ID\<close>, fixed before the peer is sent on
  \<open>srv.addpeer\<close>.
\<close>

record PeerPtr =
  addr :: nat
  node_ID :: "byte list"

text \<open>
  What the runtime decides while the loop \<open>for _, p := range peers\<close> after
  \<open>break running\<close> runs. \<open>rank\<close> gives the order in which \<open>range\<close> visits the
  keys of the map, which Go does not fix: smaller rank first. \<open>peer_at a\<close> is the
  peer at address \<open>a\<close> as the \<open>select\<close> of its \<open>Disconnect\<close> call finds it, and
  \<open>pick a\<close> says which of the cases that can proceed that \<open>select\<close> takes.
\<close>

record 'p quit_env =
  rank :: "byte list \<Rightarrow> nat"
  peer_at :: "nat \<Rightarrow> 'p Peer"
  pick :: "nat \<Rightarrow> nat"

text \<open>
  What the loop can receive: the timer, the closed \<open>srv.quit\<close>, a peer on
  \<open>srv.addpeer\<close>, a peer on \<open>srv.delpeer\<close>.
\<close>

datatype 'p event =
    CheckTimer
  | Quit "'p quit_env"
  | AddPeer PeerPtr
  | DelPeer PeerPtr

text \<open>
  Where \<open>run\<close> is: in its first loop, in its second loop, returned, ended by a
  panic in a call of \<open>Disconnect\<close>, or held for ever in such a call.
\<close>

datatype mode = Running | Draining | Returned | Panicked | Blocked

text \<open>
  The state of \<open>run\<close>: where it is, the map \<open>peers\<close> as a list of entries, and the
  calls to \<open>Disconnect\<close> made so far, each with its peer and reason.
\<close>

record run_state =
  mode :: mode
  peers :: "(byte list \<times> PeerPtr) list"
  disconnects :: "(PeerPtr \<times> nat) list"

text \<open>\<open>Server.Start\<close> makes the map empty before it starts \<open>run\<close>.\<close>

definition start_state :: run_state where
  "start_state = \<lparr>mode = Running, peers = [], disconnects = []\<rparr>"

text \<open>
  The case \<open>c := <-srv.addpeer\<close>. The call \<open>c.Disconnect(discAlreadyConnected)\<close>
  is recorded and the loop taken to go on, as it does whenever the call returns.
\<close>

definition on_addpeer :: "run_state \<Rightarrow> PeerPtr \<Rightarrow> run_state" where
  "on_addpeer s c =
     (case map_of (peers s) (node_ID c) of
        Some _ \<Rightarrow> s\<lparr>disconnects := disconnects s @ [(c, discAlreadyConnected)]\<rparr>
      | None \<Rightarrow> s\<lparr>peers := AList.update (node_ID c) c (peers s)\<rparr>)"

text \<open>The case \<open>pd := <-srv.delpeer\<close> of the loop.\<close>

definition on_delpeer :: "run_state \<Rightarrow> PeerPtr \<Rightarrow> run_state" where
  "on_delpeer s pd =
     (case map_of (peers s) (node_ID pd) of
        Some curPeer \<Rightarrow>
          if addr curPeer = addr pd
          then s\<lparr>peers := AList.delete (node_ID pd) (peers s)\<rparr>
          else s
      | None \<Rightarrow> s)"

text \<open>The test \<open>len(peers) > 0\<close> of the second loop.\<close>

definition leave_when_empty :: "run_state \<Rightarrow> run_state" where
  "leave_when_empty s = (if peers s = [] then s\<lparr>mode := Returned\<rparr> else s\<lparr>mode := Draining\<rparr>)"

text \<open>The entries of the map in the order \<open>range\<close> visits them.\<close>

definition range_order ::
  "(byte list \<Rightarrow> nat) \<Rightarrow> (byte list \<times> PeerPtr) list \<Rightarrow> (byte list \<times> PeerPtr) list" where
  "range_order r ps = sort_key (\<lambda>(k, p). r k) ps"

text \<open>What the call \<open>p.Disconnect(discServerQuit)\<close> does: one of the outcomes of \<open>Disconnect\<close>.\<close>

definition Disconnect_outcome :: "'p quit_env \<Rightarrow> PeerPtr \<Rightarrow> outcome" where
  "Disconnect_outcome env p =
     (let os = Disconnect (peer_at env (addr p))
      in os ! (pick env (addr p) mod length os))"

text \<open>
  The loop \<open>for _, p := range peers { p.Disconnect(discServerQuit) }\<close> over the entries
  still to visit. A call that panics ends \<open>run\<close>; a call that blocks holds it; after
  a call that returns the loop goes on, and after the last one comes the second loop.
\<close>

fun disconnect_all ::
  "'p quit_env \<Rightarrow> (byte list \<times> PeerPtr) list \<Rightarrow> run_state \<Rightarrow> run_state" where
  "disconnect_all env [] s = leave_when_empty s"
| "disconnect_all env ((k, p) # ps) s =
     (let s' = s\<lparr>disconnects := disconnects s @ [(p, discServerQuit)]\<rparr>
      in case Disconnect_outcome env p of
           Panics \<Rightarrow> s'\<lparr>mode := Panicked\<rparr>
         | Blocks \<Rightarrow> s'\<lparr>mode := Blocked\<rparr>
         | Posted \<Rightarrow> disconnect_all env ps s'
         | Dropped \<Rightarrow> disconnect_all env ps s')"

text \<open>After \<open>break running\<close>.\<close>

definition on_quit :: "'p quit_env \<Rightarrow> run_state \<Rightarrow> run_state" where
  "on_quit env s = disconnect_all env (range_order (rank env) (peers s)) s"

text \<open>The body of the second loop: \<open>p := <-srv.delpeer; delete(peers, p.node.ID)\<close>.\<close>

definition drain_delpeer :: "run_state \<Rightarrow> PeerPtr \<Rightarrow> run_state" where
  "drain_delpeer s p = leave_when_empty (s\<lparr>peers := AList.delete (node_ID p) (peers s)\<rparr>)"

text \<open>
  One event. \<open>scheduleTasks\<close>, called at the top of the first loop, reads the map
  and starts dials; it changes nothing in this state. The second loop receives from
  \<open>srv.delpeer\<close> only, so every other event stays where it is. After a return, a
  panic or a call that never returns, \<open>run\<close> takes no event.
\<close>

fun step :: "run_state \<Rightarrow> 'p event \<Rightarrow> run_state" where
  "step s e =
     (case mode s of
        Running \<Rightarrow>
          (case e of
             CheckTimer \<Rightarrow> s
           | Quit env \<Rightarrow> on_quit env s
           | AddPeer c \<Rightarrow> on_addpeer s c
           | DelPeer pd \<Rightarrow> on_delpeer s pd)
      | Draining \<Rightarrow>
          (case e of
             DelPeer p \<Rightarrow> drain_delpeer s p
           | _ \<Rightarrow> s)
      | Returned \<Rightarrow> s
      | Panicked \<Rightarrow> s
      | Blocked \<Rightarrow> s)"

definition run :: "run_state \<Rightarrow> 'p event list \<Rightarrow> run_state" where
  "run s evs = foldl step s evs"

text \<open>The peers of the remove events of a trace, in order.\<close>

fun delpeers :: "'p event list \<Rightarrow> PeerPtr list" where
  "delpeers [] = []"
| "delpeers (DelPeer p # evs) = p # delpeers evs"
| "delpeers (_ # evs) = delpeers evs"

section \<open>Sample parameters\<close>

text \<open>
  An instance of the parameters of \<open>setupConn\<close>, to run it on concrete inputs:
  serialisation always succeeds and writes the nonce, \<open>Deserialize\<close> reports no
  error, a capability prints as its name, a slash and the last digit of its version, control
  frames use code 1 (the literal \<open>handle\<close> tests) and the first sub-protocol code is 2.
\<close>

definition sample_extern :: "Cap extern" where
  "sample_extern =
     \<lparr>Serialize = (\<lambda>h. Inr (PutUint32 (nounce h))),
      Deserialize = (\<lambda>b. None),
      HexToAddress = (\<lambda>s. replicate 20 1),
      cap = (\<lambda>c. c),
      String = (\<lambda>c. Name c @ ''/'' @ [''0123456789'' ! (Version c mod 10)]),
      baseProtoCode = 2,
      ctlProtoCode = 1,
      ctlMsgProtoHandshake = 0,
      nodeIDLen = 20\<rparr>"

definition fresh_conn :: "byte list \<Rightarrow> conn" where
  "fresh_conn bs = \<lparr>inb = bs, outb = [], wlimit = None, closed = False\<rparr>"

text \<open>
  A peer whose \<open>run\<close> waits in the \<open>select\<close> of its loop, both channels open; and
  a shutdown at which every peer is such a peer, so that each \<open>Disconnect\<close> hands its
  reason over and returns.
\<close>

definition live_peer :: "Cap Peer" where
  "live_peer =
     \<lparr>conn = fresh_conn [], node = None, err = None, closedCh = False, discCh = False,
      waiting = True, protoMap = Map.empty, capMap = Map.empty\<rparr>"

definition all_live :: "Cap quit_env" where
  "all_live = \<lparr>rank = (\<lambda>k. 0), peer_at = (\<lambda>a. live_peer), pick = (\<lambda>a. 0)\<rparr>"

section \<open>Properties of the framed transport\<close>

lemma Uint32_PutUint32: "Uint32 (PutUint32 v) = v"
proof (rule bit_word_eqI)
  fix n :: nat
  assume n: "n < LENGTH(32)"
  consider "n < 8" | "8 \<le> n" "n < 16" | "16 \<le> n" "n < 24" | "24 \<le> n" "n < 32"
    using n by fastforce
  then show "bit (Uint32 (PutUint32 v)) n = bit v n"
    by cases (auto simp add: PutUint32_def bit_simps)
qed

lemma Uint16_PutUint16: "Uint16 (PutUint16 v) = v"
proof (rule bit_word_eqI)
  fix n :: nat
  assume n: "n < LENGTH(16)"
  consider "n < 8" | "8 \<le> n" "n < 16"
    using n by fastforce
  then show "bit (Uint16 (PutUint16 v)) n = bit v n"
    by cases (auto simp add: PutUint16_def bit_simps)
qed

lemma length_header: "length (header m) = 8"
  by (simp add: header_def PutUint32_def PutUint16_def)

lemma header_fields:
  "Uint32 (take 4 (header m)) = sizeF m"
  "Uint16 (take 2 (drop 4 (header m))) = protoCode m"
  "Uint16 (take 2 (drop 6 (header m))) = msgCode m"
proof -
  have l4: "length (PutUint32 (sizeF m)) = 4" and l2: "length (PutUint16 (protoCode m)) = 2"
    and l2': "length (PutUint16 (msgCode m)) = 2"
    by (simp_all add: PutUint32_def PutUint16_def)
  show "Uint32 (take 4 (header m)) = sizeF m"
    using l4 by (simp add: header_def Uint32_PutUint32)
  show "Uint16 (take 2 (drop 4 (header m))) = protoCode m"
    using l4 l2 by (simp add: header_def Uint16_PutUint16)
  show "Uint16 (take 2 (drop 6 (header m))) = msgCode m"
    using l4 l2 l2' by (simp add: header_def Uint16_PutUint16)
qed

lemma sendRawMsg_ok_outb:
  "sendRawMsg c m = (c', None) \<Longrightarrow> outb c' = outb c @ header m @ payload m"
  by (auto simp add: sendRawMsg_def conn_Write_def split: if_splits option.splits prod.splits)

lemma recvRawMsg_frame:
  assumes "\<not> closed d" and "inb d = header m @ payload m @ rest"
    and "length (payload m) = unat (sizeF m)"
  shows "recvRawMsg d = (d\<lparr>inb := rest\<rparr>, Inr m)"
proof -
  have r1: "ReadFull d 8 = (d\<lparr>inb := payload m @ rest\<rparr>, Inr (header m))"
    using assms(1,2) by (simp add: ReadFull_def length_header)
  have r2: "ReadFull (d\<lparr>inb := payload m @ rest\<rparr>) (unat (sizeF m))
              = (d\<lparr>inb := rest\<rparr>, Inr (payload m))"
    using assms(1,3) by (auto simp add: ReadFull_def)
  show ?thesis
    by (simp add: recvRawMsg_def r1 r2 header_fields Let_def)
qed

text \<open>
  C4. A frame whose payload has \<open>size\<close> bytes, once \<open>sendRawMsg\<close> has written it
  without error, is on the wire as the 8-byte header, each field big-endian, followed by
  the payload; and \<open>recvRawMsg\<close> on an open connection where these bytes arrive
  returns a frame with the same size, protoCode, msgCode and payload, leaving what
  comes after them unread. The size may be 0, with an empty payload.
\<close>

theorem sendRawMsg_recvRawMsg_roundtrip:
  assumes "length (payload m) = unat (sizeF m)"
    and "sendRawMsg c m = (c', None)"
    and "\<not> closed d"
    and "inb d = drop (length (outb c)) (outb c') @ rest"
  shows "outb c' = outb c @
           [ucast (drop_bit 24 (sizeF m)), ucast (drop_bit 16 (sizeF m)),
            ucast (drop_bit 8 (sizeF m)), ucast (sizeF m),
            ucast (drop_bit 8 (protoCode m)), ucast (protoCode m),
            ucast (drop_bit 8 (msgCode m)), ucast (msgCode m)] @ payload m
       \<and> recvRawMsg d = (d\<lparr>inb := rest\<rparr>, Inr m)"
proof -
  have o: "outb c' = outb c @ header m @ payload m"
    using assms(2) by (rule sendRawMsg_ok_outb)
  then have "inb d = header m @ payload m @ rest"
    using assms(4) by simp
  then have "recvRawMsg d = (d\<lparr>inb := rest\<rparr>, Inr m)"
    using assms(1,3) by (intro recvRawMsg_frame) simp_all
  with o show ?thesis
    by (simp add: header_def PutUint32_def PutUint16_def)
qed

theorem sendRawMsg_recvRawMsg_roundtrip_witness:
  "length (payload \<lparr>sizeF = 2, msgCode = 5, payload = [0xAB, 0xCD], protoCode = 1\<rparr>)
     = unat (sizeF \<lparr>sizeF = 2, msgCode = 5, payload = [0xAB, 0xCD], protoCode = 1\<rparr>)
   \<and> sendRawMsg \<lparr>inb = [], outb = [], wlimit = None, closed = False\<rparr>
        \<lparr>sizeF = 2, msgCode = 5, payload = [0xAB, 0xCD], protoCode = 1\<rparr>
      = (\<lparr>inb = [], outb = [0, 0, 0, 2, 0, 1, 0, 5, 0xAB, 0xCD], wlimit = None,
          closed = False\<rparr>, None)
   \<and> recvRawMsg \<lparr>inb = [0, 0, 0, 2, 0, 1, 0, 5, 0xAB, 0xCD, 0x11], outb = [],
                  wlimit = None, closed = False\<rparr>
      = (\<lparr>inb = [0x11], outb = [], wlimit = None, closed = False\<rparr>,
         Inr \<lparr>sizeF = 2, msgCode = 5, payload = [0xAB, 0xCD], protoCode = 1\<rparr>)"
proof -
  let ?m = "\<lparr>sizeF = 2, msgCode = 5, payload = [0xAB, 0xCD], protoCode = 1\<rparr> :: msg"
  let ?c = "\<lparr>inb = [], outb = [], wlimit = None, closed = False\<rparr> :: conn"
  let ?c' = "\<lparr>inb = [], outb = [0, 0, 0, 2, 0, 1, 0, 5, 0xAB, 0xCD], wlimit = None,
              closed = False\<rparr> :: conn"
  let ?d = "\<lparr>inb = [0, 0, 0, 2, 0, 1, 0, 5, 0xAB, 0xCD, 0x11], outb = [], wlimit = None,
             closed = False\<rparr> :: conn"
  have h1: "length (payload ?m) = unat (sizeF ?m)" by simp
  have h2: "sendRawMsg ?c ?m = (?c', None)"
    by (simp add: sendRawMsg_def conn_Write_def header_def PutUint32_def PutUint16_def)
  have h3: "\<not> closed ?d" by simp
  have h4: "inb ?d = drop (length (outb ?c)) (outb ?c') @ [0x11]" by simp
  from sendRawMsg_recvRawMsg_roundtrip [OF h1 h2 h3 h4] h1 h2 show ?thesis by simp
qed

section \<open>Properties of the server loop\<close>







lemma run_snoc: "run s (evs @ [e]) = step (run s evs) e"
  by (simp add: run_def del: step.simps)



text \<open>
  The order of \<open>range\<close>: always a rearrangement of the entries, and every
  rearrangement of a map is the order of some rank.
\<close>

lemma mset_range_order: "mset (range_order r ps) = mset ps"
  by (simp add: range_order_def)

lemma idx_at:
  "k \<in> set ks \<Longrightarrow> length (takeWhile (\<lambda>x. x \<noteq> k) ks) < length ks
     \<and> ks ! length (takeWhile (\<lambda>x. x \<noteq> k) ks) = k"
  by (induction ks) auto

lemma idx_inj:
  assumes "a \<in> set ks" "b \<in> set ks"
    and "length (takeWhile (\<lambda>x. x \<noteq> a) ks) = length (takeWhile (\<lambda>x. x \<noteq> b) ks)"
  shows "a = b"
  using idx_at [OF assms(1)] idx_at [OF assms(2)] assms(3) by metis

lemma sorted_map_Suc: "sorted (map Suc xs) = sorted xs"
  by (induction xs) auto

lemma idx_sorted:
  "distinct ks \<Longrightarrow> sorted (map (\<lambda>k. length (takeWhile (\<lambda>x. x \<noteq> k) ks)) ks)"
proof (induction ks)
  case Nil
  then show ?case by simp
next
  case (Cons a ks)
  have "map (\<lambda>k. length (takeWhile (\<lambda>x. x \<noteq> k) (a # ks))) ks
          = map (\<lambda>k. Suc (length (takeWhile (\<lambda>x. x \<noteq> k) ks))) ks"
    using Cons.prems by (intro map_cong) auto
  also have "\<dots> = map Suc (map (\<lambda>k. length (takeWhile (\<lambda>x. x \<noteq> k) ks)) ks)"
    by simp
  finally show ?case
    using Cons by (simp add: sorted_map_Suc del: map_map)
qed

lemma filter_key:
  "distinct (map fst xs) \<Longrightarrow> (k, p) \<in> set xs \<Longrightarrow> filter (\<lambda>x. fst x = k) xs = [(k, p)]"
proof (induction xs)
  case Nil
  then show ?case by simp
next
  case (Cons x xs)
  show ?case
  proof (cases "fst x = k")
    case True
    then have "k \<notin> fst ` set xs"
      using Cons.prems(1) by simp
    then have "\<forall>y\<in>set xs. fst y \<noteq> k"
      by (metis imageI)
    then have "filter (\<lambda>x. fst x = k) xs = []"
      by (simp add: filter_empty_conv)
    moreover have "(k, p) \<notin> set xs"
      using \<open>\<forall>y\<in>set xs. fst y \<noteq> k\<close> by force
    then have "x = (k, p)"
      using Cons.prems(2) by simp
    ultimately show ?thesis using True by simp
  next
    case False
    then show ?thesis using Cons by auto
  qed
qed

lemma range_order_any:
  assumes "distinct (map fst ps)" and "mset qs = mset ps"
  shows "\<exists>r. range_order r ps = qs"
proof -
  let ?ks = "map fst qs"
  let ?r = "\<lambda>k. length (takeWhile (\<lambda>x. x \<noteq> k) ?ks)"
  let ?f = "\<lambda>(k, p). ?r k"
  have m: "mset (map fst qs) = mset (map fst ps)"
    using assms(2) by simp
  have dq: "distinct ?ks"
    using assms(1) m by (metis mset_eq_imp_distinct_iff)
  have s: "set qs = set ps"
    using assms(2) by (rule mset_eq_setD)
  have srt: "sorted (map ?f qs)"
  proof -
    have e: "map ?f qs = map ?r ?ks"
      by (simp add: case_prod_beta comp_def)
    show ?thesis unfolding e by (rule idx_sorted [OF dq])
  qed
  have flt: "filter (\<lambda>x. ?f y = ?f x) qs = filter (\<lambda>x. ?f y = ?f x) ps" if "y \<in> set qs" for y
  proof -
    obtain k p where y: "y = (k, p)" by (cases y)
    have eq: "(?f y = ?f x) = (fst x = k)" if "x \<in> set qs" for x
    proof -
      have "fst x \<in> set ?ks" "k \<in> set ?ks"
        using that \<open>y \<in> set qs\<close> y by force+
      then show ?thesis
        using idx_inj [of k ?ks "fst x"] by (auto simp add: y case_prod_beta)
    qed
    have "filter (\<lambda>x. ?f y = ?f x) qs = filter (\<lambda>x. fst x = k) qs"
      using eq by (intro filter_cong) auto
    moreover have "filter (\<lambda>x. ?f y = ?f x) ps = filter (\<lambda>x. fst x = k) ps"
      using eq s by (intro filter_cong) auto
    moreover have "filter (\<lambda>x. fst x = k) qs = [(k, p)]"
      using filter_key [OF dq] that y by simp
    moreover have "filter (\<lambda>x. fst x = k) ps = [(k, p)]"
      using filter_key [OF assms(1)] that y s by simp
    ultimately show ?thesis by simp
  qed
  have "sort_key ?f ps = qs"
    using assms(2) flt srt by (rule properties_for_sort_key)
  then have ro: "range_order ?r ps = qs"
    by (simp add: range_order_def)
  show ?thesis
    by (rule exI [of _ ?r]) (rule ro)
qed


lemma drain_step_mode:
  "mode s = Draining \<or> mode s = Returned \<Longrightarrow> (mode s = Returned) = (peers s = []) \<Longrightarrow>
   (mode (step s e) = Draining \<or> mode (step s e) = Returned)
   \<and> ((mode (step s e) = Returned) = (peers (step s e) = []))"
  by (cases "mode s"; cases e) (auto simp add: drain_delpeer_def leave_when_empty_def)

lemma delete_Nil: "AList.delete k [] = []"
  by (simp add: AList.delete_eq)

lemma drain_step_peers:
  "mode s = Draining \<or> mode s = Returned \<Longrightarrow> (mode s = Returned) = (peers s = []) \<Longrightarrow>
   peers (step s e) = fold (\<lambda>p. AList.delete (node_ID p)) (delpeers [e]) (peers s)
   \<and> disconnects (step s e) = disconnects s"
  by (cases "mode s"; cases e)
     (auto simp add: drain_delpeer_def leave_when_empty_def delete_Nil)

lemma delpeers_append: "delpeers (xs @ ys) = delpeers xs @ delpeers ys"
  by (induction xs rule: delpeers.induct) simp_all

lemma drain_run:
  assumes "mode s = Draining \<or> mode s = Returned" and "(mode s = Returned) = (peers s = [])"
  shows "(mode (run s evs) = Draining \<or> mode (run s evs) = Returned)
       \<and> ((mode (run s evs) = Returned) = (peers (run s evs) = []))
       \<and> peers (run s evs) = fold (\<lambda>p. AList.delete (node_ID p)) (delpeers evs) (peers s)
       \<and> disconnects (run s evs) = disconnects s"
proof (induction evs rule: rev_induct)
  case Nil
  then show ?case using assms by (simp add: run_def)
next
  case (snoc e evs)
  let ?t = "run s evs"
  have a: "mode ?t = Draining \<or> mode ?t = Returned"
    and b: "(mode ?t = Returned) = (peers ?t = [])"
    and c: "peers ?t = fold (\<lambda>p. AList.delete (node_ID p)) (delpeers evs) (peers s)"
    and d: "disconnects ?t = disconnects s"
    using snoc by blast+
  from drain_step_mode [OF a b, of e] drain_step_peers [OF a b, of e] c d show ?case
    by (auto simp add: run_snoc delpeers_append simp del: step.simps)
qed

lemma stopped_run:
  "mode s = Panicked \<or> mode s = Blocked \<Longrightarrow> run s evs = s"
  unfolding run_def by (induction evs) auto

lemma disconnect_all_returns:
  "\<forall>(k, p) \<in> set ps. Disconnect_outcome env p = Posted \<or> Disconnect_outcome env p = Dropped \<Longrightarrow>
   disconnect_all env ps s =
     leave_when_empty (s\<lparr>disconnects := disconnects s @ map (\<lambda>(k, p). (p, discServerQuit)) ps\<rparr>)"
  by (induction ps arbitrary: s) (auto simp add: Let_def leave_when_empty_def)

lemma disconnect_all_panics:
  "(k, p) \<in> set ps \<Longrightarrow> Disconnect_outcome env p = Panics \<Longrightarrow>
   mode (disconnect_all env ps s) = Panicked \<or> mode (disconnect_all env ps s) = Blocked"
proof (induction ps arbitrary: s)
  case Nil
  then show ?case by simp
next
  case (Cons a ps)
  obtain k' p' where a: "a = (k', p')" by (cases a)
  show ?case
  proof (cases "Disconnect_outcome env p'")
    case Posted
    then have "(k, p) \<in> set ps"
      using Cons.prems a by auto
    then show ?thesis
      using Cons.IH Cons.prems(2) Posted a by (simp add: Let_def)
  next
    case Dropped
    then have "(k, p) \<in> set ps"
      using Cons.prems a by auto
    then show ?thesis
      using Cons.IH Cons.prems(2) Dropped a by (simp add: Let_def)
  next
    case Panics
    then show ?thesis using a by (simp add: Let_def)
  next
    case Blocks
    then show ?thesis using a by (simp add: Let_def)
  qed
qed

text \<open>
  When every call of \<open>Disconnect\<close> at the shutdown returns, every mapped peer gets one
  call with reason 11, in whatever order; then the remove events empty the map, and
  \<open>run\<close> has returned exactly when the map is empty.
\<close>

lemma run_shutdown_calls_return:
  assumes "mode s = Running"
    and "\<forall>(k, p) \<in> set (peers s).
           Disconnect_outcome env p = Posted \<or> Disconnect_outcome env p = Dropped"
  shows "mset (disconnects (run s (Quit env # evs)))
           = mset (disconnects s) + mset (map (\<lambda>(k, p). (p, discServerQuit)) (peers s))
       \<and> peers (run s (Quit env # evs))
           = fold (\<lambda>p. AList.delete (node_ID p)) (delpeers evs) (peers s)
       \<and> ((mode (run s (Quit env # evs)) = Returned) = (peers (run s (Quit env # evs)) = []))"
proof -
  let ?ps = "range_order (rank env) (peers s)"
  let ?q = "step s (Quit env)"
  have r: "run s (Quit env # evs) = run ?q evs"
    by (simp add: run_def del: step.simps)
  have "set ?ps = set (peers s)"
    using mset_range_order [of "rank env" "peers s"] by (rule mset_eq_setD)
  then have "\<forall>(k, p) \<in> set ?ps.
               Disconnect_outcome env p = Posted \<or> Disconnect_outcome env p = Dropped"
    using assms(2) by simp
  then have q: "?q = leave_when_empty
      (s\<lparr>disconnects := disconnects s @ map (\<lambda>(k, p). (p, discServerQuit)) ?ps\<rparr>)"
    using assms(1) by (simp add: on_quit_def disconnect_all_returns)
  have m: "mset (map (\<lambda>(k, p). (p, discServerQuit)) ?ps)
             = mset (map (\<lambda>(k, p). (p, discServerQuit)) (peers s))"
    using mset_range_order [of "rank env" "peers s"] by (metis mset_map)
  have q1: "mode ?q = Draining \<or> mode ?q = Returned"
    and q2: "(mode ?q = Returned) = (peers ?q = [])"
    and q3: "peers ?q = peers s"
    and q4: "mset (disconnects ?q)
               = mset (disconnects s) + mset (map (\<lambda>(k, p). (p, discServerQuit)) (peers s))"
    unfolding q using m by (simp_all add: leave_when_empty_def range_order_def)
  from drain_run [OF q1 q2, of evs] q3 q4 show ?thesis
    unfolding r by simp
qed

text \<open>
  When the call for some mapped peer would panic, \<open>run\<close> neither drains nor returns.
\<close>

lemma run_shutdown_panics:
  assumes "mode s = Running" and "(k, p) \<in> set (peers s)"
    and "Disconnect_outcome env p = Panics"
  shows "mode (run s (Quit env # evs)) = Panicked \<or> mode (run s (Quit env # evs)) = Blocked"
proof -
  let ?q = "step s (Quit env)"
  have r: "run s (Quit env # evs) = run ?q evs"
    by (simp add: run_def del: step.simps)
  have "(k, p) \<in> set (range_order (rank env) (peers s))"
    using assms(2) mset_range_order [of "rank env" "peers s"] by (metis mset_eq_setD)
  then have "mode ?q = Panicked \<or> mode ?q = Blocked"
    using assms(1,3) by (simp add: on_quit_def disconnect_all_panics)
  then show ?thesis
    unfolding r by (simp add: stopped_run del: step.simps)
qed

text \<open>
  C6. Peers 1 and 2 are in the map. The \<open>run\<close> of peer 1 has ended on a read error
  and has closed both its channels; its remove event is not yet taken when the shutdown
  signal comes, and \<open>range\<close> visits peer 1 first. If the \<open>select\<close> of
  \<open>Disconnect\<close> on peer 1 takes the send on the closed \<open>p.disc\<close>, \<open>run\<close>
  panics: peer 2 gets no call, no remove event is taken, the map stays full and \<open>run\<close>
  does not return. If it takes the receive from \<open>p.closed\<close>, both peers are called
  with reason 11, the two remove events empty the map and \<open>run\<close> returns.
\<close>

theorem run_shutdown_panics_on_closed_peer:
  "run start_state
     [AddPeer \<lparr>addr = 1, node_ID = [1]\<rparr>, AddPeer \<lparr>addr = 2, node_ID = [2]\<rparr>,
      Quit \<lparr>rank = (\<lambda>k. 0),
            peer_at = (\<lambda>a. if a = 1 then run_teardown (run_select live_peer (ReadErr ErrEOF))
                             else live_peer),
            pick = (\<lambda>a. 0)\<rparr>,
      DelPeer \<lparr>addr = 1, node_ID = [1]\<rparr>, DelPeer \<lparr>addr = 2, node_ID = [2]\<rparr>]
   = \<lparr>mode = Panicked,
      peers = [([1], \<lparr>addr = 1, node_ID = [1]\<rparr>), ([2], \<lparr>addr = 2, node_ID = [2]\<rparr>)],
      disconnects = [(\<lparr>addr = 1, node_ID = [1]\<rparr>, 11)]\<rparr>
   \<and> run start_state
     [AddPeer \<lparr>addr = 1, node_ID = [1]\<rparr>, AddPeer \<lparr>addr = 2, node_ID = [2]\<rparr>,
      Quit \<lparr>rank = (\<lambda>k. 0),
            peer_at = (\<lambda>a. if a = 1 then run_teardown (run_select live_peer (ReadErr ErrEOF))
                             else live_peer),
            pick = (\<lambda>a. 1)\<rparr>,
      DelPeer \<lparr>addr = 1, node_ID = [1]\<rparr>, DelPeer \<lparr>addr = 2, node_ID = [2]\<rparr>]
   = \<lparr>mode = Returned, peers = [],
      disconnects = [(\<lparr>addr = 1, node_ID = [1]\<rparr>, 11), (\<lparr>addr = 2, node_ID = [2]\<rparr>, 11)]\<rparr>"
  by (simp add: run_def start_state_def on_addpeer_def on_quit_def range_order_def
      Disconnect_outcome_def Disconnect_def select_ready_def run_teardown_def close_closed_def
      close_disc_def live_peer_def drain_delpeer_def leave_when_empty_def discServerQuit_def)

text \<open>
  While the loop is running, a remove-peer event removes the entry exactly when the
  mapped peer is the instance of the event.
\<close>

lemma delpeer_running:
  "mode s = Running \<Longrightarrow> step s (DelPeer pd) =
     (if (\<exists>cur. map_of (peers s) (node_ID pd) = Some cur \<and> addr cur = addr pd)
      then s\<lparr>peers := AList.delete (node_ID pd) (peers s)\<rparr> else s)"
  by (auto simp add: on_delpeer_def split: option.splits)

text \<open>
  C8. Peer 1 is admitted under NodeID \<open>[7]\<close>; peer 2, a second instance with the same
  NodeID, is refused and disconnected; then the shutdown signal comes. The remove-peer
  event of peer 2, which was never in the map, now removes the entry of peer 1 and the
  loop returns. The same event before the shutdown signal leaves the map unchanged.
\<close>

theorem drain_removes_stale:
  "run start_state [AddPeer \<lparr>addr = 1, node_ID = [7]\<rparr>, AddPeer \<lparr>addr = 2, node_ID = [7]\<rparr>,
                     Quit all_live]
     = \<lparr>mode = Draining, peers = [([7], \<lparr>addr = 1, node_ID = [7]\<rparr>)],
        disconnects = [(\<lparr>addr = 2, node_ID = [7]\<rparr>, 10), (\<lparr>addr = 1, node_ID = [7]\<rparr>, 11)]\<rparr>
   \<and> run start_state [AddPeer \<lparr>addr = 1, node_ID = [7]\<rparr>, AddPeer \<lparr>addr = 2, node_ID = [7]\<rparr>,
                       Quit all_live, DelPeer \<lparr>addr = 2, node_ID = [7]\<rparr>]
     = \<lparr>mode = Returned, peers = [],
        disconnects = [(\<lparr>addr = 2, node_ID = [7]\<rparr>, 10), (\<lparr>addr = 1, node_ID = [7]\<rparr>, 11)]\<rparr>
   \<and> run start_state [AddPeer \<lparr>addr = 1, node_ID = [7]\<rparr>, AddPeer \<lparr>addr = 2, node_ID = [7]\<rparr>,
                       DelPeer \<lparr>addr = 2, node_ID = [7]\<rparr> :: Cap event]
     = \<lparr>mode = Running, peers = [([7], \<lparr>addr = 1, node_ID = [7]\<rparr>)],
        disconnects = [(\<lparr>addr = 2, node_ID = [7]\<rparr>, 10)]\<rparr>"
  by (simp add: run_def start_state_def on_addpeer_def on_delpeer_def on_quit_def
      range_order_def Disconnect_outcome_def Disconnect_def select_ready_def all_live_def
      live_peer_def drain_delpeer_def leave_when_empty_def discAlreadyConnected_def
      discServerQuit_def)

section \<open>Properties of the handshake\<close>

lemmas eval_defs = setupConn_def sample_extern_def fresh_conn_def sendRawMsg_def recvRawMsg_def
  conn_Write_def ReadFull_def header_def PutUint32_def PutUint16_def Let_def conn_Close_def
  zero_protoHandShake_def copy_bytes_def outboundConn_def inboundConn_def

text \<open>
  The two tables of an admitted peer are those of the loop over the server's own
  protocols; nothing received enters them.
\<close>

lemma setupConn_tables:
  "setupConn X srv n fd flags dialDest = (fd', Inr p) \<Longrightarrow>
     (protoMap p, capMap p)
       = assignCodes X (Protocols srv) (baseProtoCode X) (Map.empty, Map.empty)"
  by (auto simp add: setupConn_def Let_def split: sum.splits option.splits prod.splits)

text \<open>
  C1. Endpoint A registers \<open>chain/1\<close> and \<open>tx/1\<close>, endpoint B registers \<open>tx/1\<close> and
  \<open>light/1\<close>, and each completes the handshake on the frame of the other. A gives
  code 2 to \<open>chain/1\<close>, which B does not have, and code 3 to \<open>tx/1\<close>; B gives code 2
  to \<open>tx/1\<close> and code 3 to \<open>light/1\<close>. The two tables differ on the one common
  capability. The last two lines run the loop that assigns the codes on its own.
\<close>

theorem setupConn_code_tables_differ:
  "map_sum id (\<lambda>p. (capMap p ''chain/1'', capMap p ''tx/1'', capMap p ''light/1''))
     (snd (setupConn sample_extern
        \<lparr>Protocols = [\<lparr>Name = ''chain'', Version = 1\<rparr>, \<lparr>Name = ''tx'', Version = 1\<rparr>],
         MyNodeID = ''0101'',
         kadDB = [\<lparr>ID = replicate 20 0, IP = ''10.0.0.2'', UDPPort = 9000\<rparr>]\<rparr>
        7 (fresh_conn [0, 0, 0, 4, 0, 1, 0, 0, 0, 0, 0, 8]) inboundConn None))
   = Inr (Some 2, Some 3, None)
   \<and> map_sum id (\<lambda>p. (capMap p ''chain/1'', capMap p ''tx/1'', capMap p ''light/1''))
     (snd (setupConn sample_extern
        \<lparr>Protocols = [\<lparr>Name = ''tx'', Version = 1\<rparr>, \<lparr>Name = ''light'', Version = 1\<rparr>],
         MyNodeID = ''0202'',
         kadDB = [\<lparr>ID = replicate 20 0, IP = ''10.0.0.1'', UDPPort = 9000\<rparr>]\<rparr>
        8 (fresh_conn [0, 0, 0, 4, 0, 1, 0, 0, 0, 0, 0, 7]) inboundConn None))
   = Inr (None, Some 2, Some 3)
   \<and> snd (assignCodes sample_extern
             [\<lparr>Name = ''chain'', Version = 1\<rparr>, \<lparr>Name = ''tx'', Version = 1\<rparr>] 2
             (Map.empty, Map.empty)) ''tx/1'' = Some 3
   \<and> snd (assignCodes sample_extern
             [\<lparr>Name = ''tx'', Version = 1\<rparr>, \<lparr>Name = ''light'', Version = 1\<rparr>] 2
             (Map.empty, Map.empty)) ''tx/1'' = Some 2"
  by (simp add: eval_defs)

text \<open>No call with \<open>flags\<close> other than \<open>inboundConn\<close> returns a peer.\<close>

lemma setupConn_outbound_fails:
  "flags \<noteq> inboundConn \<Longrightarrow> snd (setupConn X srv n fd flags dialDest) \<noteq> Inr p"
  by (auto simp add: setupConn_def Let_def split: sum.splits option.splits prod.splits)

text \<open>
  C2. An outbound connection to a node that is in the discovery snapshot, on which the
  handshake frame is sent and the reply is received and deserialised without error,
  ends with the error "Not found nodeID in discovery database!" and no peer, the
  connection left open.
\<close>

theorem setupConn_outbound_unknown_peer:
  "setupConn sample_extern
     \<lparr>Protocols = [\<lparr>Name = ''chain'', Version = 1\<rparr>, \<lparr>Name = ''tx'', Version = 1\<rparr>],
      MyNodeID = ''0101'',
      kadDB = [\<lparr>ID = replicate 20 5, IP = ''10.0.0.2'', UDPPort = 9000\<rparr>]\<rparr>
     7 (fresh_conn [0, 0, 0, 4, 0, 1, 0, 0, 9, 9, 9, 9]) outboundConn
     (Some \<lparr>ID = replicate 20 5, IP = ''10.0.0.2'', UDPPort = 9000\<rparr>)
   = (\<lparr>inb = [], outb = [0, 0, 0, 4, 0, 1, 0, 0, 0, 0, 0, 7], wlimit = None, closed = False\<rparr>,
      Inl ErrNotFoundNodeID)"
  by (simp add: eval_defs)

text \<open>Every error return but the last one closes the connection first.\<close>

lemma setupConn_error_closes:
  "setupConn X srv n fd flags dialDest = (fd', Inl e) \<Longrightarrow> e \<noteq> ErrNotFoundNodeID
     \<Longrightarrow> closed fd'"
  by (auto simp add: setupConn_def Let_def conn_Close_def
      split: sum.splits option.splits prod.splits)

text \<open>
  C3. An inbound connection whose NodeID is not in the discovery snapshot: the
  handshake returns the error and no peer, and the connection is still open. On the
  same connection with the reply cut short, the receive error closes it.
\<close>

theorem setupConn_unknown_inbound_left_open:
  "setupConn sample_extern
     \<lparr>Protocols = [\<lparr>Name = ''chain'', Version = 1\<rparr>, \<lparr>Name = ''tx'', Version = 1\<rparr>],
      MyNodeID = ''0101'',
      kadDB = [\<lparr>ID = replicate 20 5, IP = ''10.0.0.2'', UDPPort = 9000\<rparr>]\<rparr>
     7 (fresh_conn [0, 0, 0, 4, 0, 1, 0, 0, 9, 9, 9, 9]) inboundConn None
   = (\<lparr>inb = [], outb = [0, 0, 0, 4, 0, 1, 0, 0, 0, 0, 0, 7], wlimit = None, closed = False\<rparr>,
      Inl ErrNotFoundNodeID)
   \<and> setupConn sample_extern
     \<lparr>Protocols = [\<lparr>Name = ''chain'', Version = 1\<rparr>, \<lparr>Name = ''tx'', Version = 1\<rparr>],
      MyNodeID = ''0101'',
      kadDB = [\<lparr>ID = replicate 20 5, IP = ''10.0.0.2'', UDPPort = 9000\<rparr>]\<rparr>
     7 (fresh_conn [0, 0, 0, 4, 0, 1, 0, 0, 9, 9]) inboundConn None
   = (\<lparr>inb = [], outb = [0, 0, 0, 4, 0, 1, 0, 0, 0, 0, 0, 7], wlimit = None, closed = True\<rparr>,
      Inl ErrUnexpectedEOF)"
  by (simp add: eval_defs)

lemma sendRawMsg_inb_update:
  "sendRawMsg (c\<lparr>inb := x\<rparr>) m = (case sendRawMsg c m of (c', r) \<Rightarrow> (c'\<lparr>inb := x\<rparr>, r))"
  by (auto simp add: sendRawMsg_def conn_Write_def split: option.splits prod.splits)

lemma sendRawMsg_keeps:
  "closed (fst (sendRawMsg c m)) = closed c \<and> inb (fst (sendRawMsg c m)) = inb c"
  by (auto simp add: sendRawMsg_def conn_Write_def split: option.splits prod.splits)

lemma recvRawMsg_codes:
  assumes "length h = 4" and "length cs = 4"
  shows "recvRawMsg (c\<lparr>inb := h @ cs @ rest\<rparr>) =
     (if closed c then (c\<lparr>inb := h @ cs @ rest\<rparr>, Inl ErrClosedConn)
      else case ReadFull (c\<lparr>inb := rest\<rparr>) (unat (Uint32 h)) of
             (c2, Inl e) \<Rightarrow> (c2, Inl e)
           | (c2, Inr pl) \<Rightarrow>
               (c2, Inr \<lparr>sizeF = Uint32 h, msgCode = Uint16 (drop 2 cs), payload = pl,
                        protoCode = Uint16 (take 2 cs)\<rparr>))"
  using assms by (simp add: recvRawMsg_def ReadFull_def Let_def)


text \<open>
  With any other four bytes in the place of the protoCode and the msgCode of the
  header, complete frame or not, the handshake returns the same error or the same
  peer, and leaves the connection closed or open as before.
\<close>

lemma setupConn_ignores_frame_codes:
  assumes "inb fd = h @ cs @ rest" and "length h = 4" and "length cs = 4" and "length cs' = 4"
  shows "snd (setupConn X srv n (fd\<lparr>inb := h @ cs' @ rest\<rparr>) flags dialDest)
           = snd (setupConn X srv n fd flags dialDest)
       \<and> closed (fst (setupConn X srv n (fd\<lparr>inb := h @ cs' @ rest\<rparr>) flags dialDest))
           = closed (fst (setupConn X srv n fd flags dialDest))"
proof (cases "Serialize X \<lparr>caps = map (cap X) (Protocols srv),
             nodeID = copy_bytes (nodeID (zero_protoHandShake (nodeIDLen X)))
                        (HexToAddress X (MyNodeID srv)),
             nounce = n\<rparr>")
  case (Inl e)
  then show ?thesis
    by (simp add: setupConn_def Let_def conn_Close_def)
next
  case (Inr buffer)
  define w where "w = \<lparr>sizeF = of_nat (length buffer), msgCode = ctlMsgProtoHandshake X,
                        payload = buffer, protoCode = ctlProtoCode X\<rparr>"
  define c1 where "c1 = fst (sendRawMsg fd w)"
  have s': "fst (sendRawMsg (fd\<lparr>inb := h @ cs' @ rest\<rparr>) w) = c1\<lparr>inb := h @ cs' @ rest\<rparr>"
    by (simp add: c1_def sendRawMsg_inb_update split: prod.splits)
  have "inb c1 = h @ cs @ rest"
    using assms(1) by (simp add: c1_def sendRawMsg_keeps)
  then have c1: "c1 = c1\<lparr>inb := h @ cs @ rest\<rparr>"
    by simp
  have r: "recvRawMsg c1 =
     (if closed c1 then (c1, Inl ErrClosedConn)
      else case ReadFull (c1\<lparr>inb := rest\<rparr>) (unat (Uint32 h)) of
             (c2, Inl e) \<Rightarrow> (c2, Inl e)
           | (c2, Inr pl) \<Rightarrow>
               (c2, Inr \<lparr>sizeF = Uint32 h, msgCode = Uint16 (drop 2 cs), payload = pl,
                        protoCode = Uint16 (take 2 cs)\<rparr>))"
    using recvRawMsg_codes [OF assms(2,3), where c = c1 and rest = rest] c1 by simp
  note r' = recvRawMsg_codes [OF assms(2,4), where c = c1 and rest = rest]
  obtain c2 res where rf: "ReadFull (c1\<lparr>inb := rest\<rparr>) (unat (Uint32 h)) = (c2, res)"
    by fastforce
  show ?thesis
  proof (cases "closed c1")
    case True
    then show ?thesis
      unfolding setupConn_def Let_def Inr sum.case w_def [symmetric] c1_def [symmetric] s' r r'
      by (simp add: conn_Close_def)
  next
    case False
    then show ?thesis
      unfolding setupConn_def Let_def Inr sum.case w_def [symmetric] c1_def [symmetric] s' r r' rf
      by (cases res) (simp_all add: conn_Close_def split: option.splits prod.splits)
  qed
qed




section \<open>Properties of the peer\<close>

lemma Disconnect_after_teardown: "Disconnect (run_teardown p) = [Panics, Dropped]"
  by (simp add: Disconnect_def select_ready_def run_teardown_def close_closed_def close_disc_def)

text \<open>
  C7. On a peer whose \<open>run\<close> has left its loop on a read error and closed both
  channels, a call of \<open>Disconnect\<close> can take the send on the closed \<open>p.disc\<close> and
  panic, or take the receive from \<open>p.closed\<close> and return. On a peer whose \<open>run\<close>
  does not yet wait in its loop, with both channels open, the call blocks.
\<close>

theorem Disconnect_closed_peer_may_panic:
  "Disconnect (run_teardown (run_select
      \<lparr>conn = fresh_conn [], node = None, err = None, closedCh = False, discCh = False,
       waiting = True, protoMap = Map.empty :: uint16 \<rightharpoonup> Cap, capMap = Map.empty\<rparr>
      (ReadErr ErrEOF)))
   = [Panics, Dropped]
   \<and> Disconnect
      \<lparr>conn = fresh_conn [], node = None, err = None, closedCh = False, discCh = False,
       waiting = False, protoMap = Map.empty :: uint16 \<rightharpoonup> Cap, capMap = Map.empty\<rparr>
   = [Blocks]"
  by (simp add: Disconnect_def select_ready_def run_teardown_def close_closed_def
      close_disc_def)

text \<open>Pings alone, whether their writes fail or not, never end \<open>run\<close>.\<close>

lemma ping_keeps_running:
  "waiting p \<Longrightarrow>
     waiting (foldl (peer_step a b) p (replicate n PingTimer))
   \<and> closedCh (foldl (peer_step a b) p (replicate n PingTimer)) = closedCh p
   \<and> err (foldl (peer_step a b) p (replicate n PingTimer)) = err p"
  by (induction n arbitrary: p) simp_all

lemma sendCtlMsg_nil: "snd (sendCtlMsg a c code) = None"
  by (simp add: sendCtlMsg_def)

text \<open>
  C10. On a connection that takes no more bytes, \<open>sendRawMsg\<close> of a ping frame fails,
  \<open>sendCtlMsg\<close> of the same ping returns \<open>nil\<close>, and after three pings of the pinger
  the peer still waits in the loop of \<open>run\<close>: no terminal error, the closed signal
  not given, the connection not closed.
\<close>

theorem write_failure_not_terminal:
  "snd (sendRawMsg \<lparr>inb = [], outb = [], wlimit = Some 0, closed = False\<rparr>
          \<lparr>sizeF = 0, msgCode = 3, payload = [], protoCode = 1\<rparr>) = Some ErrTimeout
   \<and> snd (sendCtlMsg 1 \<lparr>inb = [], outb = [], wlimit = Some 0, closed = False\<rparr> 3) = None
   \<and> foldl (peer_step 1 3)
       \<lparr>conn = \<lparr>inb = [], outb = [], wlimit = Some 0, closed = False\<rparr>, node = None, err = None,
        closedCh = False, discCh = False, waiting = True,
        protoMap = Map.empty :: uint16 \<rightharpoonup> Cap, capMap = Map.empty\<rparr>
       [PingTimer, PingTimer, PingTimer]
     = \<lparr>conn = \<lparr>inb = [], outb = [], wlimit = Some 0, closed = False\<rparr>, node = None, err = None,
        closedCh = False, discCh = False, waiting = True,
        protoMap = Map.empty, capMap = Map.empty\<rparr>"
  by (simp add: sendCtlMsg_def sendRawMsg_def conn_Write_def header_def PutUint32_def
      PutUint16_def)

end
